theory Spec2Isabelle
  imports Main "HOL-Library.Sublist"
begin

section \<open>JavaScript values carried by request bodies\<close>

text \<open>
  A request body is what \<^verbatim>\<open>express.json()\<close> parsed. A field holds any JSON value:
  \<^verbatim>\<open>null\<close>, a boolean, a number, a string, an array or an object; a field that is absent
  reads as \<^verbatim>\<open>undefined\<close>, which is \<open>None\<close> here. Strings are byte sequences (the UTF-8
  encoding of the JavaScript string).

  A number is kept by the decimal digits with which JavaScript writes it, the shortest
  that read back as the same double: \<open>Finite neg m e\<close> is the double written with the
  digits of \<open>m\<close> at the decimal exponent \<open>e\<close>, that is the double nearest to
  \<open>m * 10 ^ e\<close>, negated when \<open>neg\<close> holds (so \<^verbatim>\<open>2.5\<close> is \<open>Finite False 25 (- 1)\<close>,
  and zero is any \<open>Finite neg 0 e\<close>), and \<open>Infinite neg\<close> is what a literal beyond the
  range of the doubles parses to. Every double has such a form, so a statement about all
  values of this type covers every number that a body can hold.
\<close>

datatype jsnum = Finite bool nat int | Infinite bool

datatype jsval =
    JNull
  | JBool bool
  | JNum jsnum
  | JStr string
  | JArr "jsval list"
  | JObj "(string \<times> jsval) list"

type_synonym body = "string \<Rightarrow> jsval option"

text \<open>An own property of a parsed object: of two members with one name the later one stays.\<close>

definition own :: "(string \<times> jsval) list \<Rightarrow> string \<Rightarrow> jsval option" where
  "own kvs k = map_of (rev kvs) k"

text \<open>JavaScript's \<^verbatim>\<open>ToBoolean\<close>: what \<^verbatim>\<open>!v\<close> and \<^verbatim>\<open>v || w\<close> test.\<close>

fun truthy :: "jsval option \<Rightarrow> bool" where
  "truthy None = False"
| "truthy (Some JNull) = False"
| "truthy (Some (JBool b)) = b"
| "truthy (Some (JNum (Finite neg m e))) = (m \<noteq> 0)"
| "truthy (Some (JNum (Infinite neg))) = True"
| "truthy (Some (JStr s)) = (s \<noteq> [])"
| "truthy (Some (JArr xs)) = True"
| "truthy (Some (JObj kvs)) = True"

text \<open>\<^verbatim>\<open>a || b\<close>: the left operand when it is truthy, the right one otherwise.\<close>

definition js_or :: "jsval option \<Rightarrow> jsval option \<Rightarrow> jsval option" where
  "js_or a b = (if truthy a then a else b)"

text \<open>\<^verbatim>\<open>a || v\<close> with a right operand that is a value, as in \<^verbatim>\<open>x || ''\<close>.\<close>

definition js_or_else :: "jsval option \<Rightarrow> jsval \<Rightarrow> jsval" where
  "js_or_else a v = (case a of Some w \<Rightarrow> (if truthy a then w else v) | None \<Rightarrow> v)"

subsection \<open>Numbers as text\<close>

definition digit_char :: "nat \<Rightarrow> char" where
  "digit_char d = (''0123456789'' ! (d mod 10))"

text \<open>The decimal digits of a natural number, as \<^verbatim>\<open>Date.now()\<close> is written.\<close>

function digits_of :: "nat \<Rightarrow> string" where
  "digits_of n = (if n < 10 then [digit_char n] else digits_of (n div 10) @ [digit_char n])"
  by pat_completeness auto
termination
  by (relation "measure id") auto

declare digits_of.simps [simp del]

text \<open>
  \<^verbatim>\<open>Number.prototype.toString\<close> for a number above zero with the significant digits
  \<open>ds\<close> (no zero at the end) and \<open>n\<close> digits before the decimal point: plain digits up
  to \<^verbatim>\<open>1e21\<close>, a decimal point down to \<^verbatim>\<open>1e-6\<close>, the exponent form beyond.
\<close>

definition render_number :: "string \<Rightarrow> int \<Rightarrow> string" where
  "render_number ds n =
     (let k = int (length ds) in
      if k \<le> n \<and> n \<le> 21 then ds @ replicate (nat (n - k)) CHR ''0''
      else if 0 < n \<and> n \<le> 21 then take (nat n) ds @ ''.'' @ drop (nat n) ds
      else if - 6 < n \<and> n \<le> 0 then ''0.'' @ replicate (nat (- n)) CHR ''0'' @ ds
      else
        let ex = (if n - 1 < 0 then ''-'' else ''+'') @ digits_of (nat \<bar>n - 1\<bar>)
        in if k = 1 then ds @ ''e'' @ ex
           else take 1 ds @ ''.'' @ drop 1 ds @ ''e'' @ ex)"

definition strip_zeros :: "string \<Rightarrow> string" where
  "strip_zeros ds = rev (dropWhile (\<lambda>c. c = CHR ''0'') (rev ds))"

fun num_toString :: "jsnum \<Rightarrow> string" where
  "num_toString (Infinite neg) = (if neg then ''-Infinity'' else ''Infinity'')"
| "num_toString (Finite neg m e) =
     (if m = 0 then ''0''
      else (if neg then ''-'' else []) @
           render_number (strip_zeros (digits_of m)) (e + int (length (digits_of m))))"

subsection \<open>Values as text\<close>

text \<open>
  \<^verbatim>\<open>Array.prototype.join\<close> with a comma, over the texts of the elements; \<open>None\<close> is a
  thrown \<^verbatim>\<open>TypeError\<close>.
\<close>

fun join_str :: "string option list \<Rightarrow> string option" where
  "join_str [] = Some []"
| "join_str [x] = x"
| "join_str (x # y # ys) =
     (case x of
        None \<Rightarrow> None
      | Some s \<Rightarrow> (case join_str (y # ys) of None \<Rightarrow> None | Some t \<Rightarrow> Some (s @ '','' @ t)))"

text \<open>
  \<^verbatim>\<open>String(v)\<close>, which a template literal and \<^verbatim>\<open>RegExp.prototype.test\<close> apply. An array
  is joined, with nothing for an element that is \<^verbatim>\<open>null\<close>. An object without a member
  \<^verbatim>\<open>toString\<close> of its own gives \<^verbatim>\<open>[object Object]\<close>; with one, which a parsed body never
  holds as a function, the conversion throws.
\<close>

fun to_str :: "jsval \<Rightarrow> string option" where
  "to_str JNull = Some ''null''"
| "to_str (JBool b) = Some (if b then ''true'' else ''false'')"
| "to_str (JNum x) = Some (num_toString x)"
| "to_str (JStr s) = Some s"
| "to_str (JArr xs) = join_str (map (\<lambda>x. if x = JNull then Some [] else to_str x) xs)"
| "to_str (JObj kvs) = (if own kvs ''toString'' = None then Some ''[object Object]'' else None)"

text \<open>The method call \<^verbatim>\<open>v.toString()\<close>: as \<^verbatim>\<open>String(v)\<close>, but it throws on \<^verbatim>\<open>null\<close>.\<close>

definition call_toString :: "jsval \<Rightarrow> string option" where
  "call_toString v = (if v = JNull then None else to_str v)"

subsection \<open>Lower-casing and substring search\<close>

text \<open>
  \<^verbatim>\<open>toLowerCase()\<close> on the byte string: the letters A to Z go to a to z, every other
  byte is kept. The webhook searches the result for three words of ASCII letters, and
  lower-casing a character outside ASCII never completes an occurrence of one of them.
\<close>

definition lower_char :: "char \<Rightarrow> char" where
  "lower_char c =
     (case map_of (zip ''ABCDEFGHIJKLMNOPQRSTUVWXYZ'' ''abcdefghijklmnopqrstuvwxyz'') c of
        Some d \<Rightarrow> d
      | None \<Rightarrow> c)"

definition toLowerCase :: "string \<Rightarrow> string" where
  "toLowerCase s = map lower_char s"

fun starts_with :: "string \<Rightarrow> string \<Rightarrow> bool" where
  "starts_with s [] = True"
| "starts_with [] (w # ws) = False"
| "starts_with (c # cs) (w # ws) = (c = w \<and> starts_with cs ws)"

text \<open>\<^verbatim>\<open>s.includes(w)\<close>: \<open>w\<close> occurs in \<open>s\<close> as a contiguous run.\<close>

fun includes_str :: "string \<Rightarrow> string \<Rightarrow> bool" where
  "includes_str [] w = (w = [])"
| "includes_str (c # cs) w = (starts_with (c # cs) w \<or> includes_str cs w)"

section \<open>The donation record store\<close>

text \<open>
  A row of the \<^verbatim>\<open>donations\<close> table. The three caller-supplied columns keep the value
  that was bound to the statement.
\<close>

record donation =
  don_id :: nat
  donor_name :: jsval
  phone :: jsval
  amount :: jsval
  transaction_id :: string
  status :: string
  created_at :: nat

type_synonym donations = "donation list"

text \<open>
  The driver writes \<^verbatim>\<open>null\<close>, a boolean, a finite number or a string into a statement as
  one literal. What the statement means with any other value in the place of a parameter
  (an array, an object, \<^verbatim>\<open>Infinity\<close>) is decided by the driver and the store.
\<close>

fun is_literal :: "jsval \<Rightarrow> bool" where
  "is_literal (JArr xs) = False"
| "is_literal (JObj kvs) = False"
| "is_literal (JNum (Infinite neg)) = False"
| "is_literal v = True"

text \<open>
  The store is outside the repository, so the handlers take its behaviour as the parameter
  \<open>dbms\<close>:
  \<^item> \<open>col_eq v c\<close>: the comparison of a bound literal \<open>v\<close> with the text \<open>c\<close> of a
    column (it depends on the column's type and collation);
  \<^item> \<open>where_other v\<close>: the rows that \<^verbatim>\<open>WHERE transaction_id = ?\<close> selects when \<open>v\<close> is
    not a literal, or \<open>None\<close> when the store rejects the statement;
  \<^item> \<open>value_other v\<close>: the literal that an \<^verbatim>\<open>INSERT\<close> stores when \<open>v\<close> is not a
    literal, or the message of the error with which the store rejects the statement.

  Apart from that the store is a table in memory that is always reachable: a statement
  with literals fails only when it breaks a uniqueness constraint of the table.
\<close>

record dbms =
  col_eq :: "jsval \<Rightarrow> string \<Rightarrow> bool"
  where_other :: "jsval \<Rightarrow> (donation \<Rightarrow> bool) option"
  value_other :: "jsval \<Rightarrow> string + jsval"

text \<open>\<^verbatim>\<open>WHERE transaction_id = ?\<close> with the parameter \<open>v\<close>.\<close>

definition where_tx :: "dbms \<Rightarrow> jsval \<Rightarrow> (donation \<Rightarrow> bool) option" where
  "where_tx d v =
     (if is_literal v then Some (\<lambda>r. col_eq d v (transaction_id r)) else where_other d v)"

text \<open>A value in the \<^verbatim>\<open>VALUES\<close> of an \<^verbatim>\<open>INSERT\<close>.\<close>

definition bind_value :: "dbms \<Rightarrow> jsval \<Rightarrow> string + jsval" where
  "bind_value d v = (if is_literal v then Inr v else value_other d v)"

text \<open>
  One possible store: texts are compared byte by byte, and a statement with a parameter
  that is not a literal is rejected.
\<close>

definition binary_eq :: "jsval \<Rightarrow> string \<Rightarrow> bool" where
  "binary_eq v c = (v = JStr c)"

definition binary_store :: dbms where
  "binary_store =
     \<lparr>col_eq = binary_eq, where_other = (\<lambda>v. None),
      value_other = (\<lambda>v. Inl ''You have an error in your SQL syntax'')\<rparr>"

text \<open>\<^verbatim>\<open>UPDATE donations SET status = ? WHERE ...\<close> over the rows that \<open>sel\<close> selects.\<close>

definition update_status :: "(donation \<Rightarrow> bool) \<Rightarrow> donations \<Rightarrow> string \<Rightarrow> donations" where
  "update_status sel db st = map (\<lambda>r. if sel r then r\<lparr>status := st\<rparr> else r) db"

section \<open>Request validation\<close>

text \<open>
  The validation chains are those of express-validator. A chain is a middleware of the
  route. It runs its validators one after the other on the field and records an error
  for each failure; \<^verbatim>\<open>validationResult(req)\<close> collects the errors of all chains, chain
  after chain. A custom validator sees the value of the field. A standard validator sees
  a string, and when the value is an array it is applied to each element; an empty array
  gives it nothing to fail on. When making that string throws, the chain passes the
  error on and the request ends in the error handler of the application.
\<close>

record verror =
  err_path :: string
  err_msg :: string
  err_value :: "jsval option"

datatype validator =
    Custom "jsval option \<Rightarrow> bool"
  | Standard bool "string \<Rightarrow> bool"

text \<open>
  The string a standard validator sees (\<^verbatim>\<open>toString\<close> of express-validator): of an array,
  at the outermost level, its first element; nothing for \<^verbatim>\<open>null\<close>; of an object
  \<^verbatim>\<open>[object Object]\<close>, unless it has a falsy member \<^verbatim>\<open>toString\<close> of its own, on which
  \<^verbatim>\<open>isNaN\<close> throws.
\<close>

fun ev_toString :: "bool \<Rightarrow> jsval \<Rightarrow> string option" where
  "ev_toString True (JArr (x # xs)) = ev_toString False x"
| "ev_toString deep JNull = Some []"
| "ev_toString deep (JObj kvs) =
     (case own kvs ''toString'' of
        None \<Rightarrow> Some ''[object Object]''
      | Some w \<Rightarrow> if truthy (Some w) then Some ''[object Object]'' else None)"
| "ev_toString deep v = to_str v"

definition stringify :: "jsval option \<Rightarrow> string option" where
  "stringify v = (case v of None \<Rightarrow> Some [] | Some w \<Rightarrow> ev_toString True w)"

text \<open>All results when none of them is a throw.\<close>

fun collect :: "'a list option list \<Rightarrow> 'a list option" where
  "collect [] = Some []"
| "collect (x # xs) =
     (case x of
        None \<Rightarrow> None
      | Some es \<Rightarrow> (case collect xs of None \<Rightarrow> None | Some fs \<Rightarrow> Some (es @ fs)))"

definition field_error :: "string \<Rightarrow> jsval option \<Rightarrow> verror" where
  "field_error field v = \<lparr>err_path = field, err_msg = ''Invalid value'', err_value = v\<rparr>"

text \<open>The values a standard validator is applied to.\<close>

fun items :: "jsval option \<Rightarrow> jsval option list" where
  "items (Some (JArr xs)) = map Some xs"
| "items v = [v]"

fun run_validator :: "string \<Rightarrow> jsval option \<Rightarrow> validator \<Rightarrow> verror list option" where
  "run_validator field v (Custom ok) = Some (if ok v then [] else [field_error field v])"
| "run_validator field v (Standard negated ok) =
     collect (map (\<lambda>x. case stringify x of
                          None \<Rightarrow> None
                        | Some s \<Rightarrow> Some (if ok s = negated then [field_error field x] else []))
                  (items v))"

definition run_chain :: "string \<Rightarrow> validator list \<Rightarrow> body \<Rightarrow> verror list option" where
  "run_chain field validators req = collect (map (run_validator field (req field)) validators)"

text \<open>\<^verbatim>\<open>isString()\<close>: \<^verbatim>\<open>typeof value === 'string'\<close>.\<close>

fun is_string :: "jsval option \<Rightarrow> bool" where
  "is_string (Some (JStr s)) = True"
| "is_string v = False"

definition isString :: validator where
  "isString = Custom is_string"

text \<open>\<^verbatim>\<open>notEmpty()\<close>: the negation of \<^verbatim>\<open>isEmpty\<close>, which holds of the string without characters.\<close>

definition notEmpty :: validator where
  "notEmpty = Standard True (\<lambda>s. s = [])"

text \<open>\<^verbatim>\<open>isIn(values)\<close>\<close>

definition isIn :: "string list \<Rightarrow> validator" where
  "isIn allowed = Standard False (\<lambda>s. s \<in> set allowed)"

subsection \<open>\<^verbatim>\<open>isFloat({ gt: 0 })\<close>\<close>

definition is_digit :: "char \<Rightarrow> bool" where
  "is_digit c = (c \<in> set ''0123456789'')"

definition digit_val :: "char \<Rightarrow> nat" where
  "digit_val c = (case map_of (zip ''0123456789'' [0 ..< 10]) c of Some d \<Rightarrow> d | None \<Rightarrow> 0)"

definition nat_of_digits :: "string \<Rightarrow> nat" where
  "nat_of_digits ds = foldl (\<lambda>a c. 10 * a + digit_val c) 0 ds"

text \<open>An optional sign in front: the sign found and the rest of the string.\<close>

fun split_sign :: "string \<Rightarrow> char option \<times> string" where
  "split_sign [] = (None, [])"
| "split_sign (c # cs) = (if c = CHR ''-'' \<or> c = CHR ''+'' then (Some c, cs) else (None, c # cs))"

text \<open>
  The parts of a string that the validator's pattern
  \<^verbatim>\<open>^[-+]?[0-9]*(\.[0-9]*)?([eE][+-]?[0-9]+)?$\<close> accepts: sign, integer digits, fraction
  digits and exponent; \<open>None\<close> when the pattern rejects the string.
\<close>

record float_parts =
  fp_sign :: "char option"
  fp_int :: string
  fp_frac :: string
  fp_exp :: int

definition scan_fraction :: "string \<Rightarrow> string \<times> string" where
  "scan_fraction s =
     (case s of
        c # cs \<Rightarrow> if c = CHR ''.'' then (takeWhile is_digit cs, dropWhile is_digit cs) else ([], s)
      | [] \<Rightarrow> ([], []))"

definition scan_exponent :: "string \<Rightarrow> (int \<times> string) option" where
  "scan_exponent s =
     (case s of
        c # cs \<Rightarrow>
          if c = CHR ''e'' \<or> c = CHR ''E''
          then (let (sg, ds) = split_sign cs;
                    e = takeWhile is_digit ds
                in if e = [] then None
                   else Some (if sg = Some CHR ''-'' then - int (nat_of_digits e)
                              else int (nat_of_digits e),
                              dropWhile is_digit ds))
          else Some (0, s)
      | [] \<Rightarrow> Some (0, []))"

definition scan_float :: "string \<Rightarrow> float_parts option" where
  "scan_float s =
     (let (sg, s1) = split_sign s;
          ip = takeWhile is_digit s1;
          (fr, s3) = scan_fraction (dropWhile is_digit s1)
      in case scan_exponent s3 of
           None \<Rightarrow> None
         | Some (e, s4) \<Rightarrow>
             if s4 = [] then Some \<lparr>fp_sign = sg, fp_int = ip, fp_frac = fr, fp_exp = e\<rparr>
             else None)"

text \<open>
  \<^verbatim>\<open>parseFloat(str) > 0\<close> for a string the pattern accepts. Without a mantissa digit
  the result is NaN. Otherwise the value is \<open>m * 10 ^ k\<close> rounded to the nearest double,
  which is above zero exactly when the value is above \<open>2 ^ -1075\<close>, half of the
  smallest positive double.
\<close>

definition parsed_gt_zero :: "float_parts \<Rightarrow> bool" where
  "parsed_gt_zero p =
     (let ds = fp_int p @ fp_frac p;
          m = nat_of_digits ds;
          k = fp_exp p - int (length (fp_frac p))
      in ds \<noteq> [] \<and> fp_sign p \<noteq> Some CHR ''-'' \<and>
         (if 0 \<le> k then 0 < m else (10 :: int) ^ nat (- k) < int m * 2 ^ 1075))"

definition isFloat_gt0_str :: "string \<Rightarrow> bool" where
  "isFloat_gt0_str s =
     (if s = [] \<or> s = ''.'' \<or> s = '','' \<or> s = ''-'' \<or> s = ''+'' then False
      else case scan_float s of None \<Rightarrow> False | Some p \<Rightarrow> parsed_gt_zero p)"

definition isFloat_gt0 :: validator where
  "isFloat_gt0 = Standard False isFloat_gt0_str"

subsection \<open>The chains of the routes\<close>

text \<open>The three chains of \<^verbatim>\<open>POST /donate\<close>.\<close>

definition donate_validationResult :: "body \<Rightarrow> verror list option" where
  "donate_validationResult req =
     collect [run_chain ''donor_name'' [isString, notEmpty] req,
              run_chain ''phone'' [isString, notEmpty] req,
              run_chain ''amount'' [isFloat_gt0] req]"

text \<open>The chain of \<^verbatim>\<open>PUT /donations/:id/status\<close>.\<close>

definition admin_status_validationResult :: "body \<Rightarrow> verror list option" where
  "admin_status_validationResult req =
     run_chain ''status'' [isIn [''pending'', ''confirmed'', ''failed'']] req"

section \<open>The payment gateway stub\<close>

text \<open>
  utils/mtn.js. \<^verbatim>\<open>createMtnPaymentRequest\<close> answers at once; the timer it starts only
  logs a payload (\<^verbatim>\<open>verifyMtnWebhook\<close> returns it) and touches no donation record. The
  template literals make texts of the amount and of the phone number, which throws when
  one of them has no text.
\<close>

record mtn_resp =
  resp_success :: bool
  resp_message :: string
  resp_transactionId :: string
  resp_redirectUrl :: string

definition createMtnPaymentRequest :: "jsval \<Rightarrow> jsval \<Rightarrow> string \<Rightarrow> mtn_resp option" where
  "createMtnPaymentRequest amt ph transactionId =
     (case to_str amt of
        None \<Rightarrow> None
      | Some a \<Rightarrow>
          (case to_str ph of
             None \<Rightarrow> None
           | Some p \<Rightarrow>
               Some \<lparr>resp_success = True,
                     resp_message = ''MTN payment request simulated'',
                     resp_transactionId = transactionId,
                     resp_redirectUrl =
                       ''mtn://pay?phone='' @ p @ ''&amount='' @ a @ ''&ref='' @ transactionId\<rparr>))"

section \<open>HTTP responses\<close>

text \<open>
  The bodies the handlers send: \<^verbatim>\<open>{message}\<close>, \<^verbatim>\<open>{error}\<close>, \<^verbatim>\<open>{errors}\<close>,
  \<^verbatim>\<open>{message, transactionId, mtnResp}\<close>, and \<open>Fault\<close> for the body of the error handler
  of the application (server.js), \<^verbatim>\<open>{message: 'Something went wrong!', error}\<close>, whose
  member \<^verbatim>\<open>error\<close> depends on the environment.
\<close>

datatype json_body =
    Message string
  | ErrorMessage string
  | Errors "verror list"
  | Initiated string string mtn_resp
  | Fault

datatype response = Response nat json_body

text \<open>\<^verbatim>\<open>res.json(b)\<close> without \<^verbatim>\<open>res.status\<close> answers with status 200.\<close>

definition res_json :: "json_body \<Rightarrow> response" where
  "res_json b = Response 200 b"

text \<open>An error that reaches the error handler of the application.\<close>

definition unhandled :: response where
  "unhandled = Response 500 Fault"

section \<open>The webhook confirmation handler\<close>

text \<open>
  \<^verbatim>\<open>POST /webhook/mtn\<close> of routes/public.js (in src/routes/blogs_new.js, lines 360 to
  398). The whole handler is inside \<^verbatim>\<open>try\<close>: a throw of \<^verbatim>\<open>toString()\<close>, which comes
  before the test of the transaction id, a statement the store rejects and a throw of the
  template literal of the log line, which comes after the update, all end in \<^verbatim>\<open>catch\<close>,
  which answers 500.
\<close>

definition webhook_transactionId :: "body \<Rightarrow> jsval option" where
  "webhook_transactionId payload =
     js_or (js_or (js_or (payload ''transactionId'') (payload ''externalId''))
                  (payload ''reference''))
           (payload ''transactionRef'')"

definition webhook_statusRaw :: "body \<Rightarrow> string option" where
  "webhook_statusRaw payload =
     map_option toLowerCase
       (call_toString (js_or_else (js_or (payload ''status'') (payload ''paymentStatus''))
                                  (JStr '''')))"

definition webhook_status :: "string \<Rightarrow> string" where
  "webhook_status statusRaw =
     (if includes_str statusRaw ''success'' \<or> includes_str statusRaw ''completed'' then ''confirmed''
      else if includes_str statusRaw ''pending'' then ''pending''
      else ''failed'')"

definition server_error :: response where
  "server_error = Response 500 (Message ''Server error'')"

definition webhook_mtn :: "dbms \<Rightarrow> donations \<Rightarrow> body \<Rightarrow> donations \<times> response" where
  "webhook_mtn d db payload =
     (let transactionId = webhook_transactionId payload in
      case webhook_statusRaw payload of
        None \<Rightarrow> (db, server_error)
      | Some statusRaw \<Rightarrow>
          (let status = webhook_status statusRaw in
           case transactionId of
             None \<Rightarrow> (db, Response 400 (Message ''Missing transaction id''))
           | Some tx \<Rightarrow>
               if \<not> truthy (Some tx)
               then (db, Response 400 (Message ''Missing transaction id''))
               else
                 (case where_tx d tx of
                    None \<Rightarrow> (db, server_error)
                  | Some sel \<Rightarrow>
                      (case to_str tx of
                         None \<Rightarrow> (update_status sel db status, server_error)
                       | Some logged \<Rightarrow>
                           (update_status sel db status,
                            res_json (Message ''Webhook processed''))))))"

section \<open>The donation initiation handler\<close>

datatype db_error = ER_DUP_ENTRY

text \<open>
  Modelled from the spec: the \<^verbatim>\<open>donations\<close> table itself is not in the repository. Its
  \<^verbatim>\<open>id\<close> is assigned by the store on creation, and \<^verbatim>\<open>transaction_id\<close> is
  \<^verbatim>\<open>UNIQUE\<close>, so an insert whose transaction id the store already holds fails;
  \<^verbatim>\<open>created_at\<close> is set at creation.
\<close>

definition next_id :: "donations \<Rightarrow> nat" where
  "next_id db = Suc (foldr max (map don_id db) 0)"

definition insert_donation ::
  "(jsval \<Rightarrow> string \<Rightarrow> bool) \<Rightarrow> donations \<Rightarrow> nat \<Rightarrow> jsval \<Rightarrow> jsval \<Rightarrow> jsval \<Rightarrow> string \<Rightarrow> string \<Rightarrow>
   db_error + donations"
where
  "insert_donation eq db now dn ph amt tx st =
     (if \<exists>r \<in> set db. eq (JStr tx) (transaction_id r) then Inl ER_DUP_ENTRY
      else Inr (db @ [\<lparr>don_id = next_id db, donor_name = dn, phone = ph, amount = amt,
                        transaction_id = tx, status = st, created_at = now\<rparr>]))"

text \<open>
  \<^verbatim>\<open>POST /donate\<close> of routes/public.js (in src/routes/blogs_new.js, lines 317 to
  356). \<open>now\<close> is the reading of \<^verbatim>\<open>Date.now()\<close>, an
  integer whose decimal form has all its digits, and \<open>rnd\<close> the text of
  \<^verbatim>\<open>Math.random().toString(36).slice(2, 9)\<close>. A body field that is absent is bound as
  \<^verbatim>\<open>NULL\<close>. After the chains the handler runs inside \<^verbatim>\<open>try\<close>: a statement the store
  rejects and a throw in the gateway stub, which comes after the insert, end in
  \<^verbatim>\<open>catch\<close>.
\<close>

definition bound :: "jsval option \<Rightarrow> jsval" where
  "bound v = (case v of Some w \<Rightarrow> w | None \<Rightarrow> JNull)"

definition donate :: "dbms \<Rightarrow> nat \<Rightarrow> string \<Rightarrow> donations \<Rightarrow> body \<Rightarrow> donations \<times> response" where
  "donate d now rnd db req =
     (case donate_validationResult req of
        None \<Rightarrow> (db, unhandled)
      | Some err \<Rightarrow>
          if err \<noteq> [] then (db, Response 400 (Errors err))
          else
            (let dn = bound (req ''donor_name'');
                 ph = bound (req ''phone'');
                 amt = bound (req ''amount'');
                 transactionId = ''tx_'' @ digits_of now @ rnd
             in case bind_value d amt of
                  Inl msg \<Rightarrow> (db, server_error)
                | Inr stored \<Rightarrow>
                    (case insert_donation (col_eq d) db now dn ph stored transactionId ''pending'' of
                       Inl e \<Rightarrow> (db, server_error)
                     | Inr db' \<Rightarrow>
                         (case createMtnPaymentRequest amt ph transactionId of
                            None \<Rightarrow> (db', server_error)
                          | Some mtnResp \<Rightarrow>
                              (db', res_json (Initiated ''Donation initiated'' transactionId
                                                mtnResp))))))"

section \<open>The admin override\<close>

text \<open>middleware/auth.js: what the token check of \<^verbatim>\<open>requireAdmin\<close> found.\<close>

datatype token = NoToken | InvalidToken | ValidToken

definition requireAdmin :: "token \<Rightarrow> response option" where
  "requireAdmin t =
     (case t of
        NoToken \<Rightarrow> Some (Response 401 (Message ''Unauthorized''))
      | InvalidToken \<Rightarrow> Some (Response 401 (Message ''Invalid or expired token''))
      | ValidToken \<Rightarrow> None)"

text \<open>
  \<^verbatim>\<open>PUT /donations/:id/status\<close> of routes/admin.js. The route declares the chain
  \<^verbatim>\<open>body('status').isIn(['pending', 'confirmed', 'failed'])\<close>, but the handler never
  reads \<^verbatim>\<open>validationResult(req)\<close>, so the chain's errors reach nothing. The status is
  a JSON string here. \<open>id_eq\<close> is the store's comparison of the route parameter with
  the numeric \<^verbatim>\<open>id\<close> column; \<open>decimal_id_eq\<close> is one possible store.
\<close>

definition decimal_id_eq :: "string \<Rightarrow> nat \<Rightarrow> bool" where
  "decimal_id_eq s n = (s = digits_of n)"

definition admin_update_donation_status ::
  "(string \<Rightarrow> nat \<Rightarrow> bool) \<Rightarrow> token \<Rightarrow> donations \<Rightarrow> string \<Rightarrow> string \<Rightarrow> donations \<times> response"
where
  "admin_update_donation_status id_eq t db ident st =
     (case requireAdmin t of
        Some denied \<Rightarrow> (db, denied)
      | None \<Rightarrow>
          (map (\<lambda>r. if id_eq ident (don_id r) then r\<lparr>status := st\<rparr> else r) db,
           res_json (Message ''Status updated'')))"

section \<open>The subscriber store and the subscribe handler\<close>

text \<open>
  The \<^verbatim>\<open>subscribers\<close> table as db.js creates it: \<^verbatim>\<open>id\<close> is the primary key and
  \<^verbatim>\<open>email\<close> is unique.
\<close>

record subscriber =
  sub_id :: string
  email :: string
  sub_created_at :: nat

type_synonym subscribers = "subscriber list"

text \<open>The text a text column keeps for a literal.\<close>

fun column_text :: "jsval \<Rightarrow> string" where
  "column_text (JStr s) = s"
| "column_text (JNum x) = num_toString x"
| "column_text (JBool b) = (if b then ''1'' else ''0'')"
| "column_text v = []"

definition insert_subscriber ::
  "(jsval \<Rightarrow> string \<Rightarrow> bool) \<Rightarrow> subscribers \<Rightarrow> nat \<Rightarrow> string \<Rightarrow> jsval \<Rightarrow> db_error + subscribers"
where
  "insert_subscriber eq subs now ident em =
     (if \<exists>r \<in> set subs. eq (JStr ident) (sub_id r) \<or> eq em (email r) then Inl ER_DUP_ENTRY
      else Inr (subs @ [\<lparr>sub_id = ident, email = column_text em, sub_created_at = now\<rparr>]))"

text \<open>
  The white space of \<^verbatim>\<open>\s\<close>, as the byte sequences of its code points: tab to carriage
  return, space, U+00A0, U+1680, U+2000 to U+200A, U+2028, U+2029, U+202F, U+205F,
  U+3000 and U+FEFF.
\<close>

definition white_space :: "string list" where
  "white_space =
     map (\<lambda>c. [c]) [CHR 0x09, CHR 0x0A, CHR 0x0B, CHR 0x0C, CHR 0x0D, CHR 0x20] @
     [[CHR 0xC2, CHR 0xA0], [CHR 0xE1, CHR 0x9A, CHR 0x80]] @
     map (\<lambda>c. [CHR 0xE2, CHR 0x80, c])
       [CHR 0x80, CHR 0x81, CHR 0x82, CHR 0x83, CHR 0x84, CHR 0x85, CHR 0x86, CHR 0x87,
        CHR 0x88, CHR 0x89, CHR 0x8A, CHR 0xA8, CHR 0xA9, CHR 0xAF] @
     [[CHR 0xE2, CHR 0x81, CHR 0x9F], [CHR 0xE3, CHR 0x80, CHR 0x80],
      [CHR 0xEF, CHR 0xBB, CHR 0xBF]]"

definition has_space :: "string \<Rightarrow> bool" where
  "has_space s = (\<exists>w \<in> set white_space. includes_str s w)"

text \<open>\<^verbatim>\<open>\S+\.\S+\<close> on a string without white space: a dot that is neither first nor last.\<close>

fun dot_not_last :: "string \<Rightarrow> bool" where
  "dot_not_last (c # d # ds) = (c = CHR ''.'' \<or> dot_not_last (d # ds))"
| "dot_not_last s = False"

fun dot_inside :: "string \<Rightarrow> bool" where
  "dot_inside [] = False"
| "dot_inside (c # cs) = dot_not_last cs"

fun at_then_dot :: "string \<Rightarrow> bool" where
  "at_then_dot [] = False"
| "at_then_dot (c # cs) = ((c = CHR ''@'' \<and> dot_inside cs) \<or> at_then_dot cs)"

text \<open>\<^verbatim>\<open>/^\S+@\S+\.\S+$/.test(s)\<close>\<close>

definition email_regex_test :: "string \<Rightarrow> bool" where
  "email_regex_test s =
     (\<not> has_space s \<and> (case s of [] \<Rightarrow> False | c # cs \<Rightarrow> at_then_dot cs))"

text \<open>
  \<^verbatim>\<open>POST /subscribe\<close> of routes/events.js. The handler has no \<^verbatim>\<open>try\<close>: when
  \<^verbatim>\<open>test\<close> throws on a value without a text, the request ends in the error handler of
  the application. An error of the store other than a duplicate entry is answered with
  its message.
\<close>

definition subscribe :: "dbms \<Rightarrow> nat \<Rightarrow> subscribers \<Rightarrow> body \<Rightarrow> subscribers \<times> response" where
  "subscribe d now subs req =
     (case req ''email'' of
        None \<Rightarrow> (subs, Response 400 (ErrorMessage ''Valid email required''))
      | Some em \<Rightarrow>
          if \<not> truthy (Some em)
          then (subs, Response 400 (ErrorMessage ''Valid email required''))
          else
            (case to_str em of
               None \<Rightarrow> (subs, unhandled)
             | Some str \<Rightarrow>
                 if \<not> email_regex_test str
                 then (subs, Response 400 (ErrorMessage ''Valid email required''))
                 else
                   (let ident = digits_of now
                    in case bind_value d em of
                         Inl msg \<Rightarrow> (subs, Response 500 (ErrorMessage msg))
                       | Inr stored \<Rightarrow>
                           (case insert_subscriber (col_eq d) subs now ident stored of
                              Inl e \<Rightarrow>
                                (subs, Response 409 (ErrorMessage ''Email already subscribed''))
                            | Inr subs' \<Rightarrow>
                                (subs', Response 201 (Message ''Subscribed successfully''))))))"

section \<open>Notions used to state the properties\<close>

text \<open>The status code of a response.\<close>

fun status_code :: "response \<Rightarrow> nat" where
  "status_code (Response c b) = c"

text \<open>The enumeration of the \<^verbatim>\<open>status\<close> column.\<close>

definition in_enumeration :: "string \<Rightarrow> bool" where
  "in_enumeration st = (st \<in> set [''pending'', ''confirmed'', ''failed''])"

text \<open>
  A webhook delivery reaches a donation record when the handler gets as far as the
  \<^verbatim>\<open>UPDATE\<close> (the status of the payload has a text and the payload carries a transaction
  id), the store accepts the statement, and the statement selects the record.
\<close>

definition webhook_reaches :: "dbms \<Rightarrow> body \<Rightarrow> donation \<Rightarrow> bool" where
  "webhook_reaches d payload r =
     (case webhook_statusRaw payload of
        None \<Rightarrow> False
      | Some statusRaw \<Rightarrow>
          (case webhook_transactionId payload of
             None \<Rightarrow> False
           | Some tx \<Rightarrow>
               truthy (Some tx) \<and>
               (case where_tx d tx of None \<Rightarrow> False | Some sel \<Rightarrow> sel r)))"

text \<open>The input constraints of a donation, in the words of the specification.\<close>

fun nonempty_string :: "jsval option \<Rightarrow> bool" where
  "nonempty_string (Some (JStr s)) = (s \<noteq> [])"
| "nonempty_string v = False"

definition all_digits :: "string \<Rightarrow> bool" where
  "all_digits ds = (\<forall>c \<in> set ds. c \<in> set ''0123456789'')"

text \<open>
  A string spells a decimal number above zero: no minus sign, digits with at most one
  decimal point, possibly an exponent, and a digit other than zero before the exponent.
\<close>

definition spells_positive_decimal :: "string \<Rightarrow> bool" where
  "spells_positive_decimal s =
     (\<exists>sg ip fr ex.
        s = sg @ ip @ fr @ ex \<and>
        (sg = [] \<or> sg = ''+'') \<and>
        all_digits ip \<and>
        (fr = [] \<or> (\<exists>fd. fr = CHR ''.'' # fd \<and> all_digits fd)) \<and>
        (ex = [] \<or>
         (\<exists>c es ed. ex = c # es @ ed \<and> (c = CHR ''e'' \<or> c = CHR ''E'') \<and>
                     (es = [] \<or> es = ''+'' \<or> es = ''-'') \<and> ed \<noteq> [] \<and> all_digits ed)) \<and>
        (\<exists>c \<in> set (ip @ fr). c \<in> set ''123456789''))"

text \<open>
  A float strictly greater than zero: a finite number above zero, or a string that spells
  one.
\<close>

fun float_above_zero :: "jsval option \<Rightarrow> bool" where
  "float_above_zero (Some (JNum (Finite neg m e))) = (\<not> neg \<and> 0 < m)"
| "float_above_zero (Some (JStr s)) = spells_positive_decimal s"
| "float_above_zero v = False"


text \<open>
  A valid donation request: \<^verbatim>\<open>donor_name\<close> and \<^verbatim>\<open>phone\<close> are non-empty strings and
  \<^verbatim>\<open>amount\<close> is a number or a string that \<^verbatim>\<open>isFloat({ gt: 0 })\<close> accepts.
\<close>

fun accepted_float :: "jsval option \<Rightarrow> bool" where
  "accepted_float (Some (JNum x)) = isFloat_gt0_str (num_toString x)"
| "accepted_float (Some (JStr s)) = isFloat_gt0_str s"
| "accepted_float v = False"

definition valid_donation :: "body \<Rightarrow> bool" where
  "valid_donation req =
     (nonempty_string (req ''donor_name'') \<and> nonempty_string (req ''phone'') \<and>
      accepted_float (req ''amount''))"


section \<open>Substring search\<close>

lemma starts_with_prefix: "starts_with s w = prefix w s"
  by (induction s w rule: starts_with.induct) auto

lemma includes_str_sublist: "includes_str s w = sublist w s"
  by (induction s) (auto simp: starts_with_prefix sublist_Cons_right)

section \<open>Numbers as text\<close>

text \<open>
  The decimal digits of the clock readings used in the examples, by the two equations of
  \<^const>\<open>digits_of\<close>.
\<close>

lemma digits_of_small: "n < 10 \<Longrightarrow> digits_of n = [digit_char n]"
  by (simp add: digits_of.simps)

lemma digits_of_large: "\<not> n < 10 \<Longrightarrow> digits_of n = digits_of (n div 10) @ [digit_char n]"
  by (subst digits_of.simps) simp

lemmas digits_of_eval = digits_of_small digits_of_large digit_char_def

lemma digits_of_first: "digits_of 1762128000000 = ''1762128000000''"
  by (simp add: digits_of_eval)

lemma digits_of_second: "digits_of 1762128000417 = ''1762128000417''"
  by (simp add: digits_of_eval)

lemma replicate_3: "replicate 3 c = [c, c, c]"
  by (simp add: numeral_3_eq_3)

lemma num_toString_1000: "num_toString (Finite False 1000 0) = ''1000''"
  by (simp add: render_number_def strip_zeros_def digits_of_eval replicate_3)

text \<open>The exponent form starts at \<^verbatim>\<open>1e21\<close> and below \<^verbatim>\<open>1e-6\<close>.\<close>

lemma num_toString_examples:
  "num_toString (Finite False 1 21) = ''1e+21''"
  "num_toString (Finite False 25 (- 1)) = ''2.5''"
  "num_toString (Finite True 5 (- 1)) = ''-0.5''"
  "num_toString (Finite False 1 (- 7)) = ''1e-7''"
  "num_toString (Finite False 12 20) = ''1.2e+21''"
  by (simp_all add: render_number_def strip_zeros_def digits_of_eval)

section \<open>The float validator\<close>


lemma digit_val_zero: "digit_val CHR ''0'' = 0"
  by code_simp





lemma all_digits_Nil [simp]: "all_digits []"
  by (simp add: all_digits_def)





lemma parsed_gt_zero_mantissa:
  assumes "parsed_gt_zero p"
  shows "fp_sign p \<noteq> Some CHR ''-'' \<and> 0 < nat_of_digits (fp_int p @ fp_frac p)"
proof -
  have "0 < nat_of_digits (fp_int p @ fp_frac p)"
  proof (rule ccontr)
    assume "\<not> 0 < nat_of_digits (fp_int p @ fp_frac p)"
    then have "nat_of_digits (fp_int p @ fp_frac p) = 0" by simp
    with assms show False by (simp add: parsed_gt_zero_def Let_def split: if_splits)
  qed
  with assms show ?thesis by (simp add: parsed_gt_zero_def Let_def)
qed


lemma isFloat_gt0_str_minus: "\<not> isFloat_gt0_str (CHR ''-'' # t)"
proof
  assume "isFloat_gt0_str (CHR ''-'' # t)"
  then obtain p where p: "scan_float (CHR ''-'' # t) = Some p" "parsed_gt_zero p"
    by (auto simp: isFloat_gt0_str_def split: if_splits option.splits)
  then have "fp_sign p = Some CHR ''-''"
    by (auto simp: scan_float_def Let_def split: option.splits if_splits prod.splits)
  with parsed_gt_zero_mantissa [OF p(2)] show False by simp
qed

lemma isFloat_gt0_str_rejects:
  "\<not> isFloat_gt0_str []" "\<not> isFloat_gt0_str ''0''" "\<not> isFloat_gt0_str ''true''"
  "\<not> isFloat_gt0_str ''false''" "\<not> isFloat_gt0_str ''Infinity''"
  "\<not> isFloat_gt0_str ''[object Object]''"
  by (simp_all add: isFloat_gt0_str_def scan_float_def scan_fraction_def scan_exponent_def
        parsed_gt_zero_def is_digit_def nat_of_digits_def digit_val_zero)

text \<open>A number that the validator accepts is finite and above zero.\<close>

lemma accepted_number:
  assumes "isFloat_gt0_str (num_toString x)"
  shows "float_above_zero (Some (JNum x))"
proof (cases x)
  case (Infinite neg)
  with assms show ?thesis
    by (cases neg) (simp_all add: isFloat_gt0_str_rejects isFloat_gt0_str_minus)
next
  case (Finite neg m e)
  have "m \<noteq> 0"
  proof
    assume "m = 0"
    with assms Finite show False by (simp add: isFloat_gt0_str_rejects)
  qed
  moreover have "\<not> neg"
  proof
    assume neg
    with assms Finite \<open>m \<noteq> 0\<close> show False by (simp add: isFloat_gt0_str_minus)
  qed
  ultimately show ?thesis using Finite by simp
qed

lemma isFloat_gt0_str_1000: "isFloat_gt0_str ''1000''"
  by code_simp

section \<open>Validation chains\<close>


lemma collect_map_Some: "collect (map Some ys) = Some (concat ys)"
  by (induction ys) simp_all

lemma collect_SomeD:
  "collect xs = Some es \<Longrightarrow> \<exists>ys. xs = map Some ys \<and> es = concat ys"
proof (induction xs arbitrary: es)
  case Nil
  then show ?case by simp
next
  case (Cons x xs)
  from Cons.prems obtain e fs where x: "x = Some e" and fs: "collect xs = Some fs"
    and es: "es = e @ fs"
    by (auto split: option.splits)
  from Cons.IH [OF fs] obtain ys where "xs = map Some ys" "fs = concat ys" by blast
  with x es have "x # xs = map Some (e # ys) \<and> es = concat (e # ys)" by simp
  then show ?case by (rule exI [where x = "e # ys"])
qed

lemma collect_Some:
  "collect xs = Some es \<longleftrightarrow> (\<exists>ys. xs = map Some ys \<and> es = concat ys)"
  using collect_SomeD collect_map_Some by blast

lemma nonempty_string_cases:
  "nonempty_string v \<longleftrightarrow> (\<exists>s. v = Some (JStr s) \<and> s \<noteq> [])"
  by (cases v rule: nonempty_string.cases) simp_all


lemma stringify_JStr [simp]: "stringify (Some (JStr s)) = Some s"
  by (simp add: stringify_def)

lemma stringify_JNum [simp]: "stringify (Some (JNum x)) = Some (num_toString x)"
  by (simp add: stringify_def)

text \<open>The chain of a field whose value is a string.\<close>

lemma run_chain_string:
  "req f = Some (JStr s) \<Longrightarrow>
   run_chain f [isString, notEmpty] req =
     Some (if s = [] then [field_error f (Some (JStr s))] else [])"
  by (simp add: run_chain_def isString_def notEmpty_def)

lemma run_chain_amount_number:
  "req f = Some (JNum x) \<Longrightarrow>
   run_chain f [isFloat_gt0] req =
     Some (if isFloat_gt0_str (num_toString x) then [] else [field_error f (Some (JNum x))])"
  by (simp add: run_chain_def isFloat_gt0_def)

lemma run_chain_amount_string:
  "req f = Some (JStr s) \<Longrightarrow>
   run_chain f [isFloat_gt0] req =
     Some (if isFloat_gt0_str s then [] else [field_error f (Some (JStr s))])"
  by (simp add: run_chain_def isFloat_gt0_def)

lemma accepted_float_cases:
  "accepted_float v \<longleftrightarrow>
     (\<exists>x. v = Some (JNum x) \<and> isFloat_gt0_str (num_toString x)) \<or>
     (\<exists>s. v = Some (JStr s) \<and> isFloat_gt0_str s)"
  by (cases v rule: accepted_float.cases) simp_all

lemma valid_donation_validationResult:
  assumes "valid_donation req"
  shows "donate_validationResult req = Some []"
proof -
  from assms obtain dn ph where
    dn: "req ''donor_name'' = Some (JStr dn)" "dn \<noteq> []" and
    ph: "req ''phone'' = Some (JStr ph)" "ph \<noteq> []"
    by (auto simp: valid_donation_def nonempty_string_cases)
  from assms have "accepted_float (req ''amount'')" by (simp add: valid_donation_def)
  then have "run_chain ''amount'' [isFloat_gt0] req = Some []"
    by (auto simp: accepted_float_cases run_chain_amount_number run_chain_amount_string)
  then show ?thesis
    using dn ph by (simp add: donate_validationResult_def run_chain_string)
qed

lemma accepted_float_literal:
  assumes "accepted_float v"
  shows "is_literal (bound v) \<and> to_str (bound v) \<noteq> None"
proof -
  from assms consider x where "v = Some (JNum x)" "isFloat_gt0_str (num_toString x)"
    | s where "v = Some (JStr s)"
    by (auto simp: accepted_float_cases)
  then show ?thesis
  proof cases
    case 1
    from accepted_number [OF 1(2)] obtain neg m e where "x = Finite neg m e"
      by (cases x) auto
    with 1 show ?thesis by (simp add: bound_def)
  next
    case 2
    then show ?thesis by (simp add: bound_def)
  qed
qed









section \<open>Properties of the webhook confirmation handler\<close>

lemma update_status_twice:
  "update_status sel (update_status sel db st) st = update_status sel db st"
  by (simp add: update_status_def)

lemma update_status_none: "\<forall>r \<in> set db. \<not> sel r \<Longrightarrow> update_status sel db st = db"
  by (simp add: update_status_def map_idI)

lemma update_status_nth:
  "i < length db \<Longrightarrow>
   status (update_status sel db st ! i) = (if sel (db ! i) then st else status (db ! i))"
  by (simp add: update_status_def)

lemma webhook_mtn_unreadable:
  "webhook_statusRaw payload = None \<Longrightarrow> webhook_mtn d db payload = (db, server_error)"
  by (simp add: webhook_mtn_def)

lemma webhook_transactionId_falsy:
  assumes "\<not> truthy (payload ''transactionId'')" "\<not> truthy (payload ''externalId'')"
    "\<not> truthy (payload ''reference'')" "\<not> truthy (payload ''transactionRef'')"
  shows "\<not> truthy (webhook_transactionId payload)"
  using assms by (simp add: webhook_transactionId_def js_or_def)

lemma webhook_mtn_falsy:
  "\<not> truthy (webhook_transactionId payload) \<Longrightarrow>
   webhook_mtn d db payload =
     (db, if webhook_statusRaw payload = None then server_error
          else Response 400 (Message ''Missing transaction id''))"
  by (auto simp: webhook_mtn_def Let_def split: option.splits)

text \<open>What a delivery does to the store: nothing, or one update of the selected rows.\<close>

lemma fst_webhook_mtn:
  "fst (webhook_mtn d db payload) =
     (case webhook_statusRaw payload of
        None \<Rightarrow> db
      | Some statusRaw \<Rightarrow>
          (case webhook_transactionId payload of
             None \<Rightarrow> db
           | Some tx \<Rightarrow>
               if \<not> truthy (Some tx) then db
               else (case where_tx d tx of
                       None \<Rightarrow> db
                     | Some sel \<Rightarrow> update_status sel db (webhook_status statusRaw))))"
  by (simp add: webhook_mtn_def Let_def split: option.splits)

lemma webhook_mtn_nth_status:
  assumes "i < length db"
  shows "status (fst (webhook_mtn d db payload) ! i) =
           (case webhook_statusRaw payload of
              None \<Rightarrow> status (db ! i)
            | Some statusRaw \<Rightarrow>
                if webhook_reaches d payload (db ! i) then webhook_status statusRaw
                else status (db ! i))"
  using assms
  by (simp add: fst_webhook_mtn webhook_reaches_def update_status_nth split: option.splits)

lemmas webhook_eval =
  webhook_mtn_def webhook_reaches_def webhook_transactionId_def webhook_status_def
  webhook_statusRaw_def js_or_def js_or_else_def call_toString_def toLowerCase_def
  lower_char_def where_tx_def binary_store_def binary_eq_def update_status_def res_json_def
  server_error_def own_def Let_def

text \<open>
  Claim C1 says that a record in a terminal status (\<^verbatim>\<open>confirmed\<close> or \<^verbatim>\<open>failed\<close>) is never
  changed by a later webhook delivery. The handler has no guard on the current status.
  What holds instead: a delivery leaves a terminal record's status as it is when the
  status value of the payload has no text (the handler then answers 500 before the
  update) and when the delivery does not reach the record (no transaction id, a statement
  the store rejects, or a statement that does not select the record); a delivery that
  reaches the record sets its status to the status normalised from the payload, whatever
  the status was, so the status stays only when the two are equal.
\<close>

theorem webhook_terminal_status:
  assumes "i < length db"
      and "status (db ! i) = ''confirmed'' \<or> status (db ! i) = ''failed''"
  shows "status (fst (webhook_mtn d db payload) ! i) =
           (case webhook_statusRaw payload of
              None \<Rightarrow> status (db ! i)
            | Some statusRaw \<Rightarrow>
                if webhook_reaches d payload (db ! i) then webhook_status statusRaw
                else status (db ! i))"
  using assms(1) by (rule webhook_mtn_nth_status)

text \<open>
A failed record that a later delivery confirms.
\<close>

theorem webhook_terminal_status_witness:
  "status ([\<lparr>don_id = 1, donor_name = JStr ''Alice'', phone = JStr ''078'',
             amount = JNum (Finite False 1000 0), transaction_id = ''tx_1762128000000k3j9x2a'',
             status = ''failed'', created_at = 1762128000000\<rparr>] ! 0)
     = ''failed'' \<and>
   status (fst (webhook_mtn binary_store
       [\<lparr>don_id = 1, donor_name = JStr ''Alice'', phone = JStr ''078'',
         amount = JNum (Finite False 1000 0), transaction_id = ''tx_1762128000000k3j9x2a'',
         status = ''failed'', created_at = 1762128000000\<rparr>]
       [''reference'' \<mapsto> JStr ''tx_1762128000000k3j9x2a'', ''paymentStatus'' \<mapsto> JStr ''Success'']) ! 0)
     = ''confirmed''"
proof -
  let ?db = "[\<lparr>don_id = 1, donor_name = JStr ''Alice'', phone = JStr ''078'',
               amount = JNum (Finite False 1000 0), transaction_id = ''tx_1762128000000k3j9x2a'',
               status = ''failed'', created_at = 1762128000000\<rparr>]"
  have len: "0 < length ?db" by simp
  have terminal: "status (?db ! 0) = ''confirmed'' \<or> status (?db ! 0) = ''failed''" by simp
  show ?thesis
    using webhook_terminal_status [OF len terminal, of binary_store
        "[''reference'' \<mapsto> JStr ''tx_1762128000000k3j9x2a'', ''paymentStatus'' \<mapsto> JStr ''Success'']"]
    by (simp add: webhook_reaches_def webhook_transactionId_def webhook_status_def
          webhook_statusRaw_def js_or_def js_or_else_def call_toString_def toLowerCase_def
          lower_char_def where_tx_def binary_store_def binary_eq_def)
qed

text \<open>
  The example of the specification: a confirmed record, then a delivery with status
  \<^verbatim>\<open>FAILED\<close> for the same transaction id. The record ends as \<^verbatim>\<open>failed\<close>.
\<close>

theorem webhook_terminal_status_counterexample:
  "map status (fst (webhook_mtn binary_store
       [\<lparr>don_id = 1, donor_name = JStr ''Alice'', phone = JStr ''078'',
         amount = JNum (Finite False 1000 0), transaction_id = ''tx_1762128000000k3j9x2a'',
         status = ''confirmed'', created_at = 1762128000000\<rparr>]
       [''transactionId'' \<mapsto> JStr ''tx_1762128000000k3j9x2a'', ''status'' \<mapsto> JStr ''FAILED'']))
     = [''failed'']"
  by (simp add: webhook_eval)

text \<open>
  Claim C2 says that the record matching the transaction id of the payload gets the status
  \<^verbatim>\<open>failed\<close> for every status value other than a text with one of the three words. The
  handler calls \<^verbatim>\<open>.toString()\<close> on the value, and the call throws on an object with a
  member \<^verbatim>\<open>toString\<close> of its own, which in a parsed body is never a function; the handler
  then answers 500 and writes nothing. What holds instead: when a delivery reaches a
  record, the status value (\<^verbatim>\<open>status\<close> or, when that is missing or falsy,
  \<^verbatim>\<open>paymentStatus\<close>) has a text, and the record gets the status that the lower-cased text
  determines by substring search: \<^verbatim>\<open>confirmed\<close> when it contains \<^verbatim>\<open>success\<close> or
  \<^verbatim>\<open>completed\<close>, else \<^verbatim>\<open>pending\<close> when it contains \<^verbatim>\<open>pending\<close>, else \<^verbatim>\<open>failed\<close>; and
  \<^verbatim>\<open>failed\<close> when both fields are absent. When the status value has no text, the
  handler answers 500 with \<^verbatim>\<open>{message: 'Server error'}\<close> and the store is unchanged.
  Substring search is stated with \<^const>\<open>sublist\<close> of the library.
\<close>

theorem webhook_status_written:
  "(i < length db \<and> webhook_reaches d payload (db ! i) \<longrightarrow>
      (\<exists>str. call_toString (js_or_else (js_or (payload ''status'') (payload ''paymentStatus''))
                                (JStr '''')) = Some str \<and>
         status (fst (webhook_mtn d db payload) ! i) =
           (let raw = toLowerCase str
            in if sublist ''success'' raw \<or> sublist ''completed'' raw then ''confirmed''
               else if sublist ''pending'' raw then ''pending''
               else ''failed'')) \<and>
      (payload ''status'' = None \<and> payload ''paymentStatus'' = None \<longrightarrow>
         status (fst (webhook_mtn d db payload) ! i) = ''failed''))
   \<and> (call_toString (js_or_else (js_or (payload ''status'') (payload ''paymentStatus''))
                        (JStr '''')) = None \<longrightarrow>
        webhook_mtn d db payload = (db, Response 500 (Message ''Server error'')))"
proof (intro conjI impI)
  assume a: "i < length db \<and> webhook_reaches d payload (db ! i)"
  then obtain raw where raw: "webhook_statusRaw payload = Some raw"
    by (auto simp: webhook_reaches_def split: option.splits)
  then obtain str where str:
    "call_toString (js_or_else (js_or (payload ''status'') (payload ''paymentStatus''))
       (JStr '''')) = Some str" "raw = toLowerCase str"
    by (auto simp: webhook_statusRaw_def)
  have st: "status (fst (webhook_mtn d db payload) ! i) = webhook_status raw"
    using a raw by (simp add: webhook_mtn_nth_status)
  show "\<exists>str. call_toString (js_or_else (js_or (payload ''status'') (payload ''paymentStatus''))
                                (JStr '''')) = Some str \<and>
         status (fst (webhook_mtn d db payload) ! i) =
           (let raw = toLowerCase str
            in if sublist ''success'' raw \<or> sublist ''completed'' raw then ''confirmed''
               else if sublist ''pending'' raw then ''pending''
               else ''failed'')"
    using str st by (simp add: webhook_status_def includes_str_sublist Let_def)
  show "status (fst (webhook_mtn d db payload) ! i) = ''failed''"
    if "payload ''status'' = None \<and> payload ''paymentStatus'' = None"
  proof -
    have "str = []"
      using that str(1) by (simp add: js_or_def js_or_else_def call_toString_def)
    then show ?thesis
      using st str(2) by (simp add: webhook_status_def toLowerCase_def)
  qed
next
  assume "call_toString (js_or_else (js_or (payload ''status'') (payload ''paymentStatus''))
                        (JStr '''')) = None"
  then have "webhook_statusRaw payload = None" by (simp add: webhook_statusRaw_def)
  then show "webhook_mtn d db payload = (db, Response 500 (Message ''Server error''))"
    by (simp add: webhook_mtn_unreadable server_error_def)
qed

text \<open>
  A pending record and a delivery whose \<^verbatim>\<open>paymentStatus\<close> contains COMPLETED; then a
  delivery whose status is an array holding an object with a member \<^verbatim>\<open>toString\<close>.
\<close>

theorem webhook_status_written_witness:
  "webhook_reaches binary_store
     [''externalId'' \<mapsto> JStr ''tx_1762128000000k3j9x2a'', ''paymentStatus'' \<mapsto> JStr ''Payment COMPLETED'']
     \<lparr>don_id = 1, donor_name = JStr ''Alice'', phone = JStr ''078'',
      amount = JNum (Finite False 1000 0), transaction_id = ''tx_1762128000000k3j9x2a'',
      status = ''pending'', created_at = 1762128000000\<rparr> \<and>
   status (fst (webhook_mtn binary_store
       [\<lparr>don_id = 1, donor_name = JStr ''Alice'', phone = JStr ''078'',
         amount = JNum (Finite False 1000 0), transaction_id = ''tx_1762128000000k3j9x2a'',
         status = ''pending'', created_at = 1762128000000\<rparr>]
       [''externalId'' \<mapsto> JStr ''tx_1762128000000k3j9x2a'',
        ''paymentStatus'' \<mapsto> JStr ''Payment COMPLETED'']) ! 0)
     = ''confirmed'' \<and>
   call_toString (js_or_else (js_or (Some (JArr [JObj [(''toString'', JBool True)]])) None)
                    (JStr '''')) = None \<and>
   webhook_mtn binary_store
       [\<lparr>don_id = 1, donor_name = JStr ''Alice'', phone = JStr ''078'',
         amount = JNum (Finite False 1000 0), transaction_id = ''tx_1762128000000k3j9x2a'',
         status = ''pending'', created_at = 1762128000000\<rparr>]
       [''externalId'' \<mapsto> JStr ''tx_1762128000000k3j9x2a'',
        ''status'' \<mapsto> JArr [JObj [(''toString'', JBool True)]]]
     = ([\<lparr>don_id = 1, donor_name = JStr ''Alice'', phone = JStr ''078'',
          amount = JNum (Finite False 1000 0), transaction_id = ''tx_1762128000000k3j9x2a'',
          status = ''pending'', created_at = 1762128000000\<rparr>],
        Response 500 (Message ''Server error''))"
proof -
  let ?r = "\<lparr>don_id = 1, donor_name = JStr ''Alice'', phone = JStr ''078'',
              amount = JNum (Finite False 1000 0), transaction_id = ''tx_1762128000000k3j9x2a'',
              status = ''pending'', created_at = 1762128000000\<rparr>"
  let ?p = "[''externalId'' \<mapsto> JStr ''tx_1762128000000k3j9x2a'',
             ''paymentStatus'' \<mapsto> JStr ''Payment COMPLETED'']"
  let ?q = "[''externalId'' \<mapsto> JStr ''tx_1762128000000k3j9x2a'',
             ''status'' \<mapsto> JArr [JObj [(''toString'', JBool True)]]]"
  have hit: "0 < length [?r] \<and> webhook_reaches binary_store ?p ([?r] ! 0)"
    by (simp add: webhook_reaches_def webhook_transactionId_def webhook_statusRaw_def js_or_def
          js_or_else_def call_toString_def where_tx_def binary_store_def binary_eq_def)
  have confirmed: "status (fst (webhook_mtn binary_store [?r] ?p) ! 0) = ''confirmed''"
    using webhook_status_written [of 0 "[?r]" binary_store ?p, THEN conjunct1, rule_format,
        OF hit, THEN conjunct1]
    by (simp add: includes_str_sublist [symmetric] js_or_def js_or_else_def call_toString_def
          toLowerCase_def lower_char_def)
  have unreadable: "call_toString (js_or_else (js_or (?q ''status'') (?q ''paymentStatus''))
                      (JStr '''')) = None"
    by (simp add: js_or_def js_or_else_def call_toString_def own_def)
  have "webhook_mtn binary_store [?r] ?q = ([?r], Response 500 (Message ''Server error''))"
    using webhook_status_written [of 0 "[?r]" binary_store ?q, THEN conjunct2, rule_format,
        OF unreadable] .
  with hit confirmed unreadable show ?thesis by simp
qed

text \<open>
  A delivery with the transaction id of a pending record and the status
  \<^verbatim>\<open>{"toString": null}\<close>: the record is still \<^verbatim>\<open>pending\<close>, not \<^verbatim>\<open>failed\<close>, and the
  answer is 500.
\<close>

theorem webhook_status_written_counterexample:
  "webhook_mtn binary_store
       [\<lparr>don_id = 1, donor_name = JStr ''Alice'', phone = JStr ''078'',
         amount = JNum (Finite False 1000 0), transaction_id = ''tx_1762128000000k3j9x2a'',
         status = ''pending'', created_at = 1762128000000\<rparr>]
       [''transactionId'' \<mapsto> JStr ''tx_1762128000000k3j9x2a'',
        ''status'' \<mapsto> JObj [(''toString'', JNull)]]
     = ([\<lparr>don_id = 1, donor_name = JStr ''Alice'', phone = JStr ''078'',
          amount = JNum (Finite False 1000 0), transaction_id = ''tx_1762128000000k3j9x2a'',
          status = ''pending'', created_at = 1762128000000\<rparr>],
        Response 500 (Message ''Server error''))"
  by (simp add: webhook_eval)

text \<open>
  Claim C3, idempotence: for every payload and every store, a second delivery of the same
  payload leaves the store, and so the status of every record, as the first delivery left
  it.
\<close>

theorem webhook_idempotent:
  "fst (webhook_mtn d (fst (webhook_mtn d db payload)) payload) = fst (webhook_mtn d db payload)"
  by (simp add: fst_webhook_mtn update_status_twice split: option.splits)

text \<open>
  Claim C4 says that a payload without a transaction id is answered with 400 and
  \<^verbatim>\<open>{message: 'Missing transaction id'}\<close>. The handler makes the text of the status value
  before it looks at the transaction id, and that throws on some values. What holds
  instead: when each of \<^verbatim>\<open>transactionId\<close>, \<^verbatim>\<open>externalId\<close>, \<^verbatim>\<open>reference\<close> and
  \<^verbatim>\<open>transactionRef\<close> is absent or the empty string, the store is unchanged, and the
  handler answers 400 with \<^verbatim>\<open>{message: 'Missing transaction id'}\<close> when the status
  value has a text and 500 with \<^verbatim>\<open>{message: 'Server error'}\<close> when it has none.
\<close>

theorem webhook_missing_transaction_id:
  assumes "\<forall>f \<in> {''transactionId'', ''externalId'', ''reference'', ''transactionRef''}.
             payload f = None \<or> payload f = Some (JStr '''')"
  shows "webhook_mtn d db payload =
           (db, if webhook_statusRaw payload = None then Response 500 (Message ''Server error'')
                else Response 400 (Message ''Missing transaction id''))"
proof -
  have "\<not> truthy (payload f)"
    if "f \<in> {''transactionId'', ''externalId'', ''reference'', ''transactionRef''}" for f
    using assms that by (metis truthy.simps(1) truthy.simps(6))
  then have "\<not> truthy (webhook_transactionId payload)"
    by (intro webhook_transactionId_falsy) simp_all
  then show ?thesis
    by (simp add: webhook_mtn_falsy server_error_def)
qed

text \<open>
An empty \<^verbatim>\<open>transactionId\<close> does not reach the record whose transaction id is empty.
\<close>

theorem webhook_missing_transaction_id_witness:
  "webhook_mtn binary_store
     [\<lparr>don_id = 1, donor_name = JStr ''Alice'', phone = JStr ''078'',
       amount = JNum (Finite False 1000 0), transaction_id = '''', status = ''pending'',
       created_at = 1762128000000\<rparr>]
     [''transactionId'' \<mapsto> JStr '''', ''status'' \<mapsto> JStr ''completed'']
   = ([\<lparr>don_id = 1, donor_name = JStr ''Alice'', phone = JStr ''078'',
        amount = JNum (Finite False 1000 0), transaction_id = '''', status = ''pending'',
        created_at = 1762128000000\<rparr>],
      Response 400 (Message ''Missing transaction id''))"
proof -
  have absent: "\<forall>f \<in> {''transactionId'', ''externalId'', ''reference'', ''transactionRef''}.
      [''transactionId'' \<mapsto> JStr '''', ''status'' \<mapsto> JStr ''completed''] f = None \<or>
      [''transactionId'' \<mapsto> JStr '''', ''status'' \<mapsto> JStr ''completed''] f = Some (JStr '''')"
    by simp
  have readable: "webhook_statusRaw [''transactionId'' \<mapsto> JStr '''', ''status'' \<mapsto> JStr ''completed'']
      \<noteq> None"
    by (simp add: webhook_statusRaw_def js_or_def js_or_else_def call_toString_def)
  show ?thesis
    using readable webhook_missing_transaction_id [OF absent, of binary_store]
    by (simp only: if_False)
qed

text \<open>
  A payload with none of the four fields and the status \<^verbatim>\<open>{"toString": null}\<close>: the
  answer is 500 with \<^verbatim>\<open>{message: 'Server error'}\<close>.
\<close>

theorem webhook_missing_transaction_id_counterexample:
  "webhook_mtn binary_store
     [\<lparr>don_id = 1, donor_name = JStr ''Alice'', phone = JStr ''078'',
       amount = JNum (Finite False 1000 0), transaction_id = ''tx_1762128000000k3j9x2a'',
       status = ''pending'', created_at = 1762128000000\<rparr>]
     [''status'' \<mapsto> JObj [(''toString'', JNull)]]
   = ([\<lparr>don_id = 1, donor_name = JStr ''Alice'', phone = JStr ''078'',
        amount = JNum (Finite False 1000 0), transaction_id = ''tx_1762128000000k3j9x2a'',
        status = ''pending'', created_at = 1762128000000\<rparr>],
      Response 500 (Message ''Server error''))"
  by (simp add: webhook_eval)

text \<open>
  Claim C9 says that a transaction id that matches no record is reported as 404. The
  handler does not look at the result of the update. What holds instead: when the payload
  carries a transaction id with which the statement selects no record, the store is
  unchanged, and the handler answers 200 with \<^verbatim>\<open>{message: 'Webhook processed'}\<close> when
  the status value has a text, the store accepts the statement and the transaction id has
  a text for the log line, and 500 with \<^verbatim>\<open>{message: 'Server error'}\<close> otherwise.
\<close>

theorem webhook_unknown_transaction_id:
  assumes "webhook_transactionId payload = Some tx" and "truthy (Some tx)"
      and "\<forall>sel. where_tx d tx = Some sel \<longrightarrow> (\<forall>r \<in> set db. \<not> sel r)"
  shows "fst (webhook_mtn d db payload) = db \<and>
         snd (webhook_mtn d db payload) =
           (if webhook_statusRaw payload \<noteq> None \<and> where_tx d tx \<noteq> None \<and> to_str tx \<noteq> None
            then Response 200 (Message ''Webhook processed'')
            else Response 500 (Message ''Server error''))"
  using assms
  by (auto simp: webhook_mtn_def Let_def update_status_none res_json_def server_error_def
           split: option.splits)

text \<open>
A delivery for a transaction id the store does not hold.
\<close>

theorem webhook_unknown_transaction_id_witness:
  "webhook_mtn binary_store
     [\<lparr>don_id = 1, donor_name = JStr ''Alice'', phone = JStr ''078'',
       amount = JNum (Finite False 1000 0), transaction_id = ''tx_1762128000000k3j9x2a'',
       status = ''pending'', created_at = 1762128000000\<rparr>]
     [''transactionRef'' \<mapsto> JStr ''tx_1762128000417q0w8e5r'', ''status'' \<mapsto> JStr ''completed'']
   = ([\<lparr>don_id = 1, donor_name = JStr ''Alice'', phone = JStr ''078'',
        amount = JNum (Finite False 1000 0), transaction_id = ''tx_1762128000000k3j9x2a'',
        status = ''pending'', created_at = 1762128000000\<rparr>],
      Response 200 (Message ''Webhook processed''))"
proof -
  let ?db = "[\<lparr>don_id = 1, donor_name = JStr ''Alice'', phone = JStr ''078'',
       amount = JNum (Finite False 1000 0), transaction_id = ''tx_1762128000000k3j9x2a'',
       status = ''pending'', created_at = 1762128000000\<rparr>]"
  let ?p = "[''transactionRef'' \<mapsto> JStr ''tx_1762128000417q0w8e5r'', ''status'' \<mapsto> JStr ''completed'']"
  have tx: "webhook_transactionId ?p = Some (JStr ''tx_1762128000417q0w8e5r'')"
    by (simp add: webhook_transactionId_def js_or_def)
  have t: "truthy (Some (JStr ''tx_1762128000417q0w8e5r''))" by simp
  have none: "\<forall>sel. where_tx binary_store (JStr ''tx_1762128000417q0w8e5r'') = Some sel \<longrightarrow>
      (\<forall>r \<in> set ?db. \<not> sel r)"
    by (auto simp: where_tx_def binary_store_def binary_eq_def)
  show ?thesis
    using webhook_unknown_transaction_id [where payload = ?p and d = binary_store and db = ?db,
        OF tx t none]
    by (simp add: prod_eq_iff webhook_statusRaw_def js_or_def js_or_else_def call_toString_def
          where_tx_def)
qed

text \<open>
The same unknown transaction id under \<^verbatim>\<open>transactionId\<close>: the status code is 200, not 404.
\<close>

theorem webhook_unknown_transaction_id_counterexample:
  "status_code (snd (webhook_mtn binary_store
     [\<lparr>don_id = 1, donor_name = JStr ''Alice'', phone = JStr ''078'',
       amount = JNum (Finite False 1000 0), transaction_id = ''tx_1762128000000k3j9x2a'',
       status = ''pending'', created_at = 1762128000000\<rparr>]
     [''transactionId'' \<mapsto> JStr ''tx_1762128000417q0w8e5r'', ''status'' \<mapsto> JStr ''completed''])) = 200"
  by (simp add: webhook_eval)

section \<open>Properties of the donation initiation handler\<close>



lemma donate_valid_fresh:
  assumes "valid_donation req"
      and "\<forall>r \<in> set db. \<not> col_eq d (JStr (''tx_'' @ digits_of now @ rnd)) (transaction_id r)"
  shows "\<exists>mtnResp.
           createMtnPaymentRequest (bound (req ''amount'')) (bound (req ''phone''))
             (''tx_'' @ digits_of now @ rnd) = Some mtnResp \<and>
           donate d now rnd db req =
             (db @ [\<lparr>don_id = next_id db, donor_name = bound (req ''donor_name''),
                      phone = bound (req ''phone''), amount = bound (req ''amount''),
                      transaction_id = ''tx_'' @ digits_of now @ rnd, status = ''pending'',
                      created_at = now\<rparr>],
              Response 200 (Initiated ''Donation initiated'' (''tx_'' @ digits_of now @ rnd)
                mtnResp))"
proof -
  from assms(1) have amt: "is_literal (bound (req ''amount''))"
    "to_str (bound (req ''amount'')) \<noteq> None"
    using accepted_float_literal by (simp_all add: valid_donation_def)
  from assms(1) obtain ph where "req ''phone'' = Some (JStr ph)"
    by (auto simp: valid_donation_def nonempty_string_cases)
  then have ph: "to_str (bound (req ''phone'')) \<noteq> None" by (simp add: bound_def)
  from amt(2) ph obtain mtnResp where
    "createMtnPaymentRequest (bound (req ''amount'')) (bound (req ''phone''))
       (''tx_'' @ digits_of now @ rnd) = Some mtnResp"
    by (auto simp: createMtnPaymentRequest_def)
  then show ?thesis
    using assms amt(1)
    by (simp add: donate_def valid_donation_validationResult bind_value_def insert_donation_def
          res_json_def Let_def)
qed

lemma donate_valid_duplicate:
  assumes "valid_donation req"
      and "\<exists>r \<in> set db. col_eq d (JStr (''tx_'' @ digits_of now @ rnd)) (transaction_id r)"
  shows "donate d now rnd db req = (db, Response 500 (Message ''Server error''))"
proof -
  from assms(1) have "is_literal (bound (req ''amount''))"
    using accepted_float_literal by (simp add: valid_donation_def)
  then show ?thesis
    using assms
    by (simp add: donate_def valid_donation_validationResult bind_value_def insert_donation_def
          server_error_def Let_def)
qed




text \<open>
  Claim C5 says that every valid request creates exactly one pending record whose
  transaction id no earlier record has. The id is \<^verbatim>\<open>'tx_' + Date.now()\<close> followed by a
  random suffix, and nothing checks it against the store before the insert. What holds
  instead, for every valid request: when the store matches the generated id with no record,
  exactly one record is appended, it is \<^verbatim>\<open>pending\<close>, it carries the generated id, and
  (for a store whose comparison identifies equal texts) that id differs from the id of
  every earlier record; when the store already holds the generated id, no record is
  created and the answer is 500.
\<close>

theorem donate_creates_pending:
  assumes "valid_donation req"
  shows "((\<forall>r \<in> set db. \<not> col_eq d (JStr (''tx_'' @ digits_of now @ rnd)) (transaction_id r)) \<longrightarrow>
            (\<exists>r. fst (donate d now rnd db req) = db @ [r] \<and> status r = ''pending'' \<and>
                 transaction_id r = ''tx_'' @ digits_of now @ rnd \<and>
                 ((\<forall>s. col_eq d (JStr s) s) \<longrightarrow> transaction_id r \<notin> transaction_id ` set db)))
       \<and> ((\<exists>r \<in> set db. col_eq d (JStr (''tx_'' @ digits_of now @ rnd)) (transaction_id r)) \<longrightarrow>
            donate d now rnd db req = (db, Response 500 (Message ''Server error'')))"
proof (intro conjI impI)
  assume fresh:
    "\<forall>r \<in> set db. \<not> col_eq d (JStr (''tx_'' @ digits_of now @ rnd)) (transaction_id r)"
  let ?r = "\<lparr>don_id = next_id db, donor_name = bound (req ''donor_name''),
             phone = bound (req ''phone''), amount = bound (req ''amount''),
             transaction_id = ''tx_'' @ digits_of now @ rnd, status = ''pending'',
             created_at = now\<rparr>"
  have "fst (donate d now rnd db req) = db @ [?r]"
    using donate_valid_fresh [of req db d now rnd] assms fresh by auto
  moreover have "(\<forall>s. col_eq d (JStr s) s) \<longrightarrow> transaction_id ?r \<notin> transaction_id ` set db"
    using fresh by auto
  ultimately show "\<exists>r. fst (donate d now rnd db req) = db @ [r] \<and> status r = ''pending'' \<and>
                 transaction_id r = ''tx_'' @ digits_of now @ rnd \<and>
                 ((\<forall>s. col_eq d (JStr s) s) \<longrightarrow> transaction_id r \<notin> transaction_id ` set db)"
    by (intro exI [of _ ?r]) simp
next
  assume "\<exists>r \<in> set db. col_eq d (JStr (''tx_'' @ digits_of now @ rnd)) (transaction_id r)"
  then show "donate d now rnd db req = (db, Response 500 (Message ''Server error''))"
    using donate_valid_duplicate [of req db d now rnd] assms by simp
qed

text \<open>
  A fresh id next to an earlier record, and the id of that earlier record generated again.
\<close>

theorem donate_creates_pending_witness:
  "valid_donation
     [''donor_name'' \<mapsto> JStr ''Bob'', ''phone'' \<mapsto> JStr ''079'', ''amount'' \<mapsto> JStr ''2.50'']
   \<and> (\<exists>r. fst (donate binary_store 1762128000417 ''q0w8e5r''
            [\<lparr>don_id = 1, donor_name = JStr ''Alice'', phone = JStr ''078'',
              amount = JNum (Finite False 1000 0), transaction_id = ''tx_1762128000000k3j9x2a'',
              status = ''pending'', created_at = 1762128000000\<rparr>]
            [''donor_name'' \<mapsto> JStr ''Bob'', ''phone'' \<mapsto> JStr ''079'',
             ''amount'' \<mapsto> JStr ''2.50''])
          = [\<lparr>don_id = 1, donor_name = JStr ''Alice'', phone = JStr ''078'',
              amount = JNum (Finite False 1000 0), transaction_id = ''tx_1762128000000k3j9x2a'',
              status = ''pending'', created_at = 1762128000000\<rparr>] @ [r]
          \<and> status r = ''pending'' \<and> transaction_id r = ''tx_1762128000417q0w8e5r'')
   \<and> donate binary_store 1762128000000 ''k3j9x2a''
        [\<lparr>don_id = 1, donor_name = JStr ''Alice'', phone = JStr ''078'',
          amount = JNum (Finite False 1000 0), transaction_id = ''tx_1762128000000k3j9x2a'',
          status = ''pending'', created_at = 1762128000000\<rparr>]
        [''donor_name'' \<mapsto> JStr ''Bob'', ''phone'' \<mapsto> JStr ''079'', ''amount'' \<mapsto> JStr ''2.50'']
      = ([\<lparr>don_id = 1, donor_name = JStr ''Alice'', phone = JStr ''078'',
           amount = JNum (Finite False 1000 0), transaction_id = ''tx_1762128000000k3j9x2a'',
           status = ''pending'', created_at = 1762128000000\<rparr>],
         Response 500 (Message ''Server error''))"
proof -
  let ?db = "[\<lparr>don_id = 1, donor_name = JStr ''Alice'', phone = JStr ''078'',
               amount = JNum (Finite False 1000 0), transaction_id = ''tx_1762128000000k3j9x2a'',
               status = ''pending'', created_at = 1762128000000\<rparr>]"
  let ?bob = "[''donor_name'' \<mapsto> JStr ''Bob'', ''phone'' \<mapsto> JStr ''079'',
               ''amount'' \<mapsto> JStr ''2.50'']"
  have valid: "valid_donation ?bob" by code_simp
  have fresh: "\<forall>r \<in> set ?db.
      \<not> col_eq binary_store (JStr (''tx_'' @ digits_of 1762128000417 @ ''q0w8e5r''))
          (transaction_id r)"
    by (simp add: binary_store_def binary_eq_def digits_of_second)
  have dup: "\<exists>r \<in> set ?db.
      col_eq binary_store (JStr (''tx_'' @ digits_of 1762128000000 @ ''k3j9x2a''))
        (transaction_id r)"
    by (simp add: binary_store_def binary_eq_def digits_of_first)
  have "\<exists>r. fst (donate binary_store 1762128000417 ''q0w8e5r'' ?db ?bob) = ?db @ [r] \<and>
          status r = ''pending'' \<and> transaction_id r = ''tx_1762128000417q0w8e5r''"
    using donate_creates_pending [OF valid, of ?db binary_store 1762128000417 "''q0w8e5r''",
        THEN conjunct1] fresh
    by (auto simp: digits_of_second)
  moreover have "donate binary_store 1762128000000 ''k3j9x2a'' ?db ?bob =
      (?db, Response 500 (Message ''Server error''))"
    using donate_creates_pending [OF valid, of ?db binary_store 1762128000000 "''k3j9x2a''",
        THEN conjunct2] dup
    by blast
  ultimately show ?thesis using valid by blast
qed

text \<open>
  A valid request at the clock reading and with the random suffix of an earlier request:
  no record is created.
\<close>

theorem donate_creates_pending_counterexample:
  "donate binary_store 1762128000000 ''k3j9x2a''
     [\<lparr>don_id = 1, donor_name = JStr ''Alice'', phone = JStr ''078'',
       amount = JNum (Finite False 1000 0), transaction_id = ''tx_1762128000000k3j9x2a'',
       status = ''pending'', created_at = 1762128000000\<rparr>]
     [''donor_name'' \<mapsto> JStr ''Bob'', ''phone'' \<mapsto> JStr ''079'', ''amount'' \<mapsto> JStr ''2.50'']
   = ([\<lparr>don_id = 1, donor_name = JStr ''Alice'', phone = JStr ''078'',
        amount = JNum (Finite False 1000 0), transaction_id = ''tx_1762128000000k3j9x2a'',
        status = ''pending'', created_at = 1762128000000\<rparr>],
      Response 500 (Message ''Server error''))"
proof (rule donate_valid_duplicate)
  show "valid_donation
     [''donor_name'' \<mapsto> JStr ''Bob'', ''phone'' \<mapsto> JStr ''079'', ''amount'' \<mapsto> JStr ''2.50'']"
    by code_simp
  show "\<exists>r \<in> set [\<lparr>don_id = 1, donor_name = JStr ''Alice'', phone = JStr ''078'',
      amount = JNum (Finite False 1000 0), transaction_id = ''tx_1762128000000k3j9x2a'',
      status = ''pending'', created_at = 1762128000000\<rparr>].
      col_eq binary_store (JStr (''tx_'' @ digits_of 1762128000000 @ ''k3j9x2a''))
        (transaction_id r)"
    by (simp add: binary_store_def binary_eq_def digits_of_first)
qed

text \<open>
  Claim C7 says that a valid donation request is answered with status 201. The handler
  ends with \<^verbatim>\<open>res.json(...)\<close> without \<^verbatim>\<open>res.status(201)\<close>, whereas the handlers next to
  it that create a record (the contact message of the same router, the donation of
  routes/photo.js with the same \<^verbatim>\<open>INSERT\<close>, the subscription of routes/events.js) answer
  201. For the valid request \<^verbatim>\<open>{donor_name: "Alice", phone: "078", amount: 1000}\<close> on an
  empty store the handler creates the pending record and answers with status 200 and the
  body \<^verbatim>\<open>{message, transactionId, mtnResp}\<close>.
\<close>

theorem donate_answers_200:
  "valid_donation
     [''donor_name'' \<mapsto> JStr ''Alice'', ''phone'' \<mapsto> JStr ''078'',
      ''amount'' \<mapsto> JNum (Finite False 1000 0)]
   \<and> donate binary_store 1762128000000 ''k3j9x2a'' []
       [''donor_name'' \<mapsto> JStr ''Alice'', ''phone'' \<mapsto> JStr ''078'',
        ''amount'' \<mapsto> JNum (Finite False 1000 0)]
     = ([\<lparr>don_id = 1, donor_name = JStr ''Alice'', phone = JStr ''078'',
          amount = JNum (Finite False 1000 0), transaction_id = ''tx_1762128000000k3j9x2a'',
          status = ''pending'', created_at = 1762128000000\<rparr>],
        Response 200
          (Initiated ''Donation initiated'' ''tx_1762128000000k3j9x2a''
             \<lparr>resp_success = True, resp_message = ''MTN payment request simulated'',
              resp_transactionId = ''tx_1762128000000k3j9x2a'',
              resp_redirectUrl =
                ''mtn://pay?phone=078&amount=1000&ref=tx_1762128000000k3j9x2a''\<rparr>))"
proof -
  let ?alice = "[''donor_name'' \<mapsto> JStr ''Alice'', ''phone'' \<mapsto> JStr ''078'',
                 ''amount'' \<mapsto> JNum (Finite False 1000 0)]"
  have valid: "valid_donation ?alice"
    by (simp add: valid_donation_def num_toString_1000 isFloat_gt0_str_1000
          del: num_toString.simps)
  have fresh: "\<forall>r \<in> set [].
      \<not> col_eq binary_store (JStr (''tx_'' @ digits_of 1762128000000 @ ''k3j9x2a''))
          (transaction_id r)"
    by simp
  from donate_valid_fresh [OF valid fresh] valid show ?thesis
    by (simp add: createMtnPaymentRequest_def bound_def next_id_def digits_of_first
          num_toString_1000 del: num_toString.simps)
qed

section \<open>Properties of the admin override\<close>

text \<open>
  The two other writers keep every status within the enumeration: the initiation handler
  writes \<^verbatim>\<open>pending\<close> and the webhook handler one of the three values.
\<close>

lemma webhook_status_in_enumeration: "in_enumeration (webhook_status statusRaw)"
  by (simp add: webhook_status_def in_enumeration_def)

lemma update_status_keeps_enumeration:
  assumes "\<forall>r \<in> set db. in_enumeration (status r)" and "in_enumeration st"
  shows "\<forall>r \<in> set (update_status sel db st). in_enumeration (status r)"
  using assms by (auto simp: update_status_def)

lemma webhook_mtn_keeps_enumeration:
  assumes "\<forall>r \<in> set db. in_enumeration (status r)"
  shows "\<forall>r \<in> set (fst (webhook_mtn d db payload)). in_enumeration (status r)"
  unfolding fst_webhook_mtn
  using assms update_status_keeps_enumeration [OF assms webhook_status_in_enumeration]
  by (simp split: option.splits)

lemma donate_keeps_enumeration:
  assumes "\<forall>r \<in> set db. in_enumeration (status r)"
  shows "\<forall>r \<in> set (fst (donate d now rnd db req)). in_enumeration (status r)"
  using assms
  by (auto simp: donate_def insert_donation_def Let_def in_enumeration_def
           split: if_splits option.splits sum.splits)

text \<open>
  Claim C6 says that \<^verbatim>\<open>PUT /api/admin/donations/:id/status\<close> rejects a status outside
  \<^verbatim>\<open>pending\<close>, \<^verbatim>\<open>confirmed\<close>, \<^verbatim>\<open>failed\<close> and does not write it. With a valid admin
  token and the status \<^verbatim>\<open>refunded\<close> the handler writes \<^verbatim>\<open>refunded\<close> to the record and
  answers 200, although the chain declared on the route reports an error for that value.
\<close>

theorem admin_override_writes_any_status:
  "admin_update_donation_status decimal_id_eq ValidToken
     [\<lparr>don_id = 1, donor_name = JStr ''Alice'', phone = JStr ''078'',
       amount = JNum (Finite False 1000 0), transaction_id = ''tx_1762128000000k3j9x2a'',
       status = ''pending'', created_at = 1762128000000\<rparr>]
     ''1'' ''refunded''
   = ([\<lparr>don_id = 1, donor_name = JStr ''Alice'', phone = JStr ''078'',
        amount = JNum (Finite False 1000 0), transaction_id = ''tx_1762128000000k3j9x2a'',
        status = ''refunded'', created_at = 1762128000000\<rparr>],
      Response 200 (Message ''Status updated''))
   \<and> \<not> in_enumeration ''refunded''
   \<and> admin_status_validationResult [''status'' \<mapsto> JStr ''refunded'']
     = Some [\<lparr>err_path = ''status'', err_msg = ''Invalid value'',
              err_value = Some (JStr ''refunded'')\<rparr>]"
  by (simp add: admin_update_donation_status_def requireAdmin_def decimal_id_eq_def
        digits_of_eval res_json_def admin_status_validationResult_def run_chain_def isIn_def
        in_enumeration_def field_error_def)

section \<open>Properties of the subscribe handler\<close>

text \<open>
  The pattern \<^verbatim>\<open>^\S+@\S+\.\S+$\<close> accepts the strings without white space that
  split into a non-empty part, \<^verbatim>\<open>@\<close>, a non-empty part, a dot and a non-empty part.
\<close>

lemma dot_not_last_iff: "dot_not_last s \<longleftrightarrow> (\<exists>b c. s = b @ CHR ''.'' # c \<and> c \<noteq> [])"
proof (induction s rule: dot_not_last.induct)
  case (1 c d ds)
  show ?case
  proof
    assume "dot_not_last (c # d # ds)"
    then consider "c = CHR ''.''" | "dot_not_last (d # ds)" by auto
    then show "\<exists>b e. c # d # ds = b @ CHR ''.'' # e \<and> e \<noteq> []"
    proof cases
      case 1
      then have "c # d # ds = [] @ CHR ''.'' # (d # ds)" by simp
      then show ?thesis by blast
    next
      case 2
      with "1.IH" obtain b e where "d # ds = b @ CHR ''.'' # e" "e \<noteq> []" by blast
      then have "c # d # ds = (c # b) @ CHR ''.'' # e" by simp
      with \<open>e \<noteq> []\<close> show ?thesis by blast
    qed
  next
    assume "\<exists>b e. c # d # ds = b @ CHR ''.'' # e \<and> e \<noteq> []"
    then obtain b e where be: "c # d # ds = b @ CHR ''.'' # e" "e \<noteq> []" by blast
    show "dot_not_last (c # d # ds)"
    proof (cases b)
      case Nil
      with be have "c = CHR ''.''" by simp
      then show ?thesis by simp
    next
      case (Cons x xs)
      with be have "d # ds = xs @ CHR ''.'' # e" by simp
      with be(2) "1.IH" have "dot_not_last (d # ds)" by blast
      then show ?thesis by simp
    qed
  qed
qed (auto simp: Cons_eq_append_conv)

lemma dot_inside_iff:
  "dot_inside s \<longleftrightarrow> (\<exists>b c. s = b @ CHR ''.'' # c \<and> b \<noteq> [] \<and> c \<noteq> [])"
proof (cases s)
  case Nil
  then show ?thesis by simp
next
  case (Cons x xs)
  show ?thesis
  proof
    assume "dot_inside s"
    then obtain b c where "xs = b @ CHR ''.'' # c" "c \<noteq> []"
      using Cons dot_not_last_iff by auto
    then have "s = (x # b) @ CHR ''.'' # c \<and> x # b \<noteq> [] \<and> c \<noteq> []" using Cons by simp
    then show "\<exists>b c. s = b @ CHR ''.'' # c \<and> b \<noteq> [] \<and> c \<noteq> []" by blast
  next
    assume "\<exists>b c. s = b @ CHR ''.'' # c \<and> b \<noteq> [] \<and> c \<noteq> []"
    then obtain b c where bc: "s = b @ CHR ''.'' # c" "b \<noteq> []" "c \<noteq> []" by blast
    then obtain y ys where "b = y # ys" by (cases b) auto
    with bc Cons have "xs = ys @ CHR ''.'' # c" by simp
    with bc(3) have "dot_not_last xs" using dot_not_last_iff by blast
    with Cons show "dot_inside s" by simp
  qed
qed

lemma at_then_dot_iff:
  "at_then_dot s \<longleftrightarrow> (\<exists>a t. s = a @ CHR ''@'' # t \<and> dot_inside t)"
proof (induction s)
  case Nil
  then show ?case by simp
next
  case (Cons x xs)
  show ?case
  proof
    assume "at_then_dot (x # xs)"
    then consider "x = CHR ''@''" "dot_inside xs" | "at_then_dot xs" by auto
    then show "\<exists>a t. x # xs = a @ CHR ''@'' # t \<and> dot_inside t"
    proof cases
      case 1
      then have "x # xs = [] @ CHR ''@'' # xs" by simp
      with 1 show ?thesis by blast
    next
      case 2
      with Cons.IH obtain a t where "xs = a @ CHR ''@'' # t" "dot_inside t" by blast
      then have "x # xs = (x # a) @ CHR ''@'' # t \<and> dot_inside t" by simp
      then show ?thesis by blast
    qed
  next
    assume "\<exists>a t. x # xs = a @ CHR ''@'' # t \<and> dot_inside t"
    then obtain a t where at: "x # xs = a @ CHR ''@'' # t" "dot_inside t" by blast
    show "at_then_dot (x # xs)"
    proof (cases a)
      case Nil
      with at show ?thesis by simp
    next
      case (Cons y ys)
      with at have "xs = ys @ CHR ''@'' # t" by simp
      with at(2) Cons.IH have "at_then_dot xs" by blast
      then show ?thesis by simp
    qed
  qed
qed

lemma email_regex_test_iff:
  "email_regex_test s \<longleftrightarrow>
     \<not> has_space s \<and>
     (\<exists>a b c. s = a @ ''@'' @ b @ ''.'' @ c \<and> a \<noteq> [] \<and> b \<noteq> [] \<and> c \<noteq> [])"
proof -
  have "(case s of [] \<Rightarrow> False | x # xs \<Rightarrow> at_then_dot xs) \<longleftrightarrow>
      (\<exists>a b c. s = a @ ''@'' @ b @ ''.'' @ c \<and> a \<noteq> [] \<and> b \<noteq> [] \<and> c \<noteq> [])"
  proof (cases s)
    case Nil
    then show ?thesis by simp
  next
    case (Cons x xs)
    show ?thesis
    proof
      assume "case s of [] \<Rightarrow> False | x # xs \<Rightarrow> at_then_dot xs"
      then have "at_then_dot xs" using Cons by simp
      then obtain a t where a: "xs = a @ CHR ''@'' # t" "dot_inside t"
        using at_then_dot_iff by blast
      then obtain b c where b: "t = b @ CHR ''.'' # c" "b \<noteq> []" "c \<noteq> []"
        using dot_inside_iff by blast
      have "s = (x # a) @ ''@'' @ b @ ''.'' @ c" using Cons a b by simp
      with b show "\<exists>a b c. s = a @ ''@'' @ b @ ''.'' @ c \<and> a \<noteq> [] \<and> b \<noteq> [] \<and> c \<noteq> []"
        by blast
    next
      assume "\<exists>a b c. s = a @ ''@'' @ b @ ''.'' @ c \<and> a \<noteq> [] \<and> b \<noteq> [] \<and> c \<noteq> []"
      then obtain a b c where abc: "s = a @ ''@'' @ b @ ''.'' @ c" "a \<noteq> []" "b \<noteq> []" "c \<noteq> []"
        by blast
      then obtain y ys where "a = y # ys" by (cases a) auto
      with abc Cons have xs: "xs = ys @ CHR ''@'' # (b @ CHR ''.'' # c)" by simp
      have "dot_inside (b @ CHR ''.'' # c)" using abc dot_inside_iff by blast
      with xs have "at_then_dot xs" using at_then_dot_iff by blast
      with Cons show "case s of [] \<Rightarrow> False | x # xs \<Rightarrow> at_then_dot xs" by simp
    qed
  qed
  then show ?thesis by (simp add: email_regex_test_def)
qed

text \<open>
  The handler stores only emails that passed its format check, when the store keeps of a
  value that is not a literal the text that the handler checked.
\<close>

lemma email_regex_test_at: "email_regex_test s \<Longrightarrow> CHR ''@'' \<in> set s"
  by (auto simp: email_regex_test_iff)

lemma checked_literal_text:
  assumes "is_literal em" and "to_str em = Some str" and "email_regex_test str"
  shows "column_text em = str"
proof (cases em)
  case JNull
  with assms email_regex_test_at [of "''null''"] show ?thesis by auto
next
  case (JBool b)
  with assms email_regex_test_at [of "''true''"] email_regex_test_at [of "''false''"]
  show ?thesis by (cases b) auto
qed (use assms in auto)

lemma subscribe_stores_wellformed:
  assumes "\<forall>r \<in> set subs. email_regex_test (email r)"
      and "\<forall>v w. value_other d v = Inr w \<longrightarrow> to_str v = Some (column_text w)"
  shows "\<forall>r \<in> set (fst (subscribe d now subs req)). email_regex_test (email r)"
proof (cases "fst (subscribe d now subs req) = subs")
  case True
  with assms(1) show ?thesis by simp
next
  case False
  then obtain em str stored where em: "req ''email'' = Some em" "to_str em = Some str"
    "email_regex_test str" "bind_value d em = Inr stored"
    and res: "fst (subscribe d now subs req) =
                subs @ [\<lparr>sub_id = digits_of now, email = column_text stored,
                          sub_created_at = now\<rparr>]"
    by (auto simp: subscribe_def Let_def insert_subscriber_def
             split: option.splits sum.splits if_splits)
  have "column_text stored = str"
  proof (cases "is_literal em")
    case True
    with em have "stored = em" by (simp add: bind_value_def)
    with checked_literal_text [OF True em(2,3)] show ?thesis by simp
  next
    case False
    with em have "value_other d em = Inr stored" by (simp add: bind_value_def)
    with assms(2) em(2) show ?thesis by auto
  qed
  with em(3) res assms(1) show ?thesis by auto
qed

text \<open>
  Claim C10: a subscribe request whose email passes the format check of the handler and
  is already held by the subscriber store is answered with status 409 and the body
  \<^verbatim>\<open>{error: 'Email already subscribed'}\<close>, and the store is unchanged. (An email that fails
  the format check is answered with 400 before the store is asked, and the handler stores
  no such email.)
\<close>

theorem subscribe_duplicate_email:
  assumes "req ''email'' = Some (JStr e)" and "email_regex_test e"
      and "\<exists>r \<in> set subs. col_eq d (JStr e) (email r)"
  shows "subscribe d now subs req = (subs, Response 409 (ErrorMessage ''Email already subscribed''))"
proof -
  have "e \<noteq> []" using assms(2) by (auto simp: email_regex_test_def)
  with assms show ?thesis
    by (auto simp: subscribe_def insert_subscriber_def bind_value_def Let_def)
qed

text \<open>
  A second request with a stored email.
\<close>

theorem subscribe_duplicate_email_witness:
  "email_regex_test ''fan@band.rw''
   \<and> subscribe binary_store 1762128000417
        [\<lparr>sub_id = ''1762128000000'', email = ''fan@band.rw'', sub_created_at = 1762128000000\<rparr>]
        [''email'' \<mapsto> JStr ''fan@band.rw'']
     = ([\<lparr>sub_id = ''1762128000000'', email = ''fan@band.rw'', sub_created_at = 1762128000000\<rparr>],
        Response 409 (ErrorMessage ''Email already subscribed''))"
proof -
  let ?subs = "[\<lparr>sub_id = ''1762128000000'', email = ''fan@band.rw'', sub_created_at = 1762128000000\<rparr>]"
  let ?req = "[''email'' \<mapsto> JStr ''fan@band.rw'']"
  have field: "?req ''email'' = Some (JStr ''fan@band.rw'')" by simp
  have ok: "email_regex_test ''fan@band.rw''" by code_simp
  have stored: "\<exists>r \<in> set ?subs. col_eq binary_store (JStr ''fan@band.rw'') (email r)"
    by (simp add: binary_store_def binary_eq_def)
  show ?thesis
    using subscribe_duplicate_email [where req = ?req and d = binary_store and subs = ?subs,
        OF field ok stored, of 1762128000417] ok
    by blast
qed

end
